theory Spec2Isabelle
  imports Main "HOL-Library.AList" "HOL-Library.Word"
begin

section \<open>Python values\<close>

text \<open>
  The classes that \<open>types.py\<close> inspects: the seven keys of
  \<open>Parameters._python_builtins\<close>, the other built-in containers, \<open>object\<close>, and
  user-defined classes with a single base class.
\<close>

datatype pyclass =
    Cbool | Cint | Cfloat | Cstr | Cbytes | CNoneType | Cdict
  | Clist | Ctuple | Cset | Cfrozenset | Cobject
  | Cuser string pyclass

text \<open>
  Values. A \<open>float\<close> is carried as its IEEE-754 bit pattern. Sets are carried in
  their iteration order. \<open>PyInstance n b\<close> is an instance of a user-defined class
  named \<open>n\<close> that derives from the class of \<open>b\<close> and inherits its behaviour;
  \<open>PyIterable a n xs\<close> is an instance of a user-defined class deriving from \<open>object\<close>
  whose iterator yields \<open>xs\<close>.

  The objects whose comparison depends on which object they are carry their address:
  a \<open>float\<close> (a NaN equals only itself), an instance of \<open>object\<close> and an instance of
  a class that inherits \<open>object\<close>'s comparison. Two occurrences are the same object
  when address and content agree. For every other value the comparison is decided by
  the content.
\<close>

datatype pyobj =
    PyBool bool
  | PyInt int
  | PyFloat nat "64 word"
  | PyStr string
  | PyBytes "8 word list"
  | PyNone
  | PyDict "(pyobj \<times> pyobj) list"
  | PyList "pyobj list"
  | PyTuple "pyobj list"
  | PySet "pyobj list"
  | PyFrozenset "pyobj list"
  | PyObject nat
  | PyInstance string pyobj
  | PyIterable nat string "pyobj list"

datatype exception = ValueError | AssertionError | TypeError | KeyError

text \<open>\<open>type(obj)\<close>.\<close>

fun type_py :: "pyobj \<Rightarrow> pyclass" where
  "type_py (PyBool _) = Cbool"
| "type_py (PyInt _) = Cint"
| "type_py (PyFloat _ _) = Cfloat"
| "type_py (PyStr _) = Cstr"
| "type_py (PyBytes _) = Cbytes"
| "type_py PyNone = CNoneType"
| "type_py (PyDict _) = Cdict"
| "type_py (PyList _) = Clist"
| "type_py (PyTuple _) = Ctuple"
| "type_py (PySet _) = Cset"
| "type_py (PyFrozenset _) = Cfrozenset"
| "type_py (PyObject _) = Cobject"
| "type_py (PyInstance n b) = Cuser n (type_py b)"
| "type_py (PyIterable _ n _) = Cuser n Cobject"

text \<open>\<open>issubclass(c, d)\<close>: \<open>bool\<close> derives from \<open>int\<close>, everything from \<open>object\<close>.\<close>

fun issubclass :: "pyclass \<Rightarrow> pyclass \<Rightarrow> bool" where
  "issubclass (Cuser n b) d = (d = Cuser n b \<or> issubclass b d)"
| "issubclass Cbool d = (d = Cbool \<or> d = Cint \<or> d = Cobject)"
| "issubclass c d = (d = c \<or> d = Cobject)"

definition isinstance :: "pyobj \<Rightarrow> pyclass \<Rightarrow> bool" where
  "isinstance obj c = issubclass (type_py obj) c"

text \<open>
  The elements an iterator over the object yields, or \<open>None\<close> when \<open>iter(obj)\<close>
  raises \<open>TypeError\<close>. A \<open>str\<close> yields one-character strings, \<open>bytes\<close> yields
  integers, a \<open>dict\<close> yields its keys.
\<close>

fun iterate :: "pyobj \<Rightarrow> pyobj list option" where
  "iterate (PyStr s) = Some (map (\<lambda>c. PyStr [c]) s)"
| "iterate (PyBytes bs) = Some (map (\<lambda>b. PyInt (uint b)) bs)"
| "iterate (PyDict kvs) = Some (map fst kvs)"
| "iterate (PyList xs) = Some xs"
| "iterate (PyTuple xs) = Some xs"
| "iterate (PySet xs) = Some xs"
| "iterate (PyFrozenset xs) = Some xs"
| "iterate (PyInstance n b) = iterate b"
| "iterate (PyIterable _ n xs) = Some xs"
| "iterate _ = None"

text \<open>The outcome of \<open>i = iter(obj); first = next(i)\<close>.\<close>

datatype iteration = Raised | StopIteration | First pyobj

definition iter_next :: "pyobj \<Rightarrow> iteration" where
  "iter_next obj =
     (case iterate obj of
        None \<Rightarrow> Raised
      | Some [] \<Rightarrow> StopIteration
      | Some (x # _) \<Rightarrow> First x)"

section \<open>Parameters\<close>

type_synonym typeform = "string \<times> string"

text \<open>\<open>Parameters._python_builtins\<close>, in the order the dictionary is written.\<close>

definition python_builtins :: "(pyclass \<times> string) list" where
  "python_builtins =
     [(Cbool, ''boolean''),
      (Cint, ''integer''),
      (Cfloat, ''rational''),
      (Cstr, ''string''),
      (Cbytes, ''octets''),
      (CNoneType, ''void''),
      (Cdict, ''parameters'')]"

lemma iter_next_size_le: "iter_next obj = First x \<Longrightarrow> size x \<le> size obj"
proof (induction obj arbitrary: x)
  case (PyInstance n b)
  then show ?case by (simp add: iter_next_def)
next
  case (PyDict kvs)
  then show ?case by (cases kvs) (auto simp: iter_next_def)
qed (auto simp: iter_next_def split: list.splits)

lemma iter_next_size_less:
  assumes "map_of python_builtins (type_py obj) = None" and "iter_next obj = First x"
  shows "size x < size obj"
proof (cases obj)
  case (PyInstance n b)
  with assms(2) have "iter_next b = First x" by (simp add: iter_next_def)
  then have "size x \<le> size b" by (rule iter_next_size_le)
  with PyInstance show ?thesis by simp
qed (use assms in \<open>auto simp: iter_next_def python_builtins_def split: list.splits\<close>)

text \<open>
  \<open>Parameters.identify_object_typeform\<close>. The result \<open>Inr None\<close> is the function
  running off its end, which returns Python's \<open>None\<close>. Subscripting that \<open>None\<close> in
  the \<open>assert\<close> raises \<open>TypeError\<close>. Assertions are taken as enabled (no \<open>-O\<close>), and
  the interpreter's recursion limit is left out.
\<close>

function identify_object_typeform :: "pyobj \<Rightarrow> exception + typeform option" where
  "identify_object_typeform obj =
     (case map_of python_builtins (type_py obj) of
        Some stype \<Rightarrow> Inr (Some (''value'', stype))
      | None \<Rightarrow>
          (case iter_next obj of
             StopIteration \<Rightarrow> Inl ValueError
           | First first \<Rightarrow>
               (case identify_object_typeform first of
                  Inl e \<Rightarrow> Inl e
                | Inr None \<Rightarrow> Inl TypeError
                | Inr (Some tf) \<Rightarrow>
                    if fst tf \<in> {''value'', ''representation''}
                    then (if isinstance obj Cset
                          then Inr (Some (''v-set'', snd tf))
                          else Inr (Some (''v-sequence'', snd tf)))
                    else Inl AssertionError)
           | Raised \<Rightarrow>
               (case find (\<lambda>(Type, stype). isinstance obj Type) python_builtins of
                  Some (Type, stype) \<Rightarrow> Inr (Some (''value'', stype))
                | None \<Rightarrow> Inr None)))"
  by pat_completeness auto
termination
  by (relation "measure size") (auto intro: iter_next_size_less)

declare identify_object_typeform.simps [simp del]

text \<open>
  A \<open>Parameters\<close> instance has the single slot \<open>_storage\<close>, a \<open>dict\<close> from key to
  the pair of typeform and value. The dictionary is kept as an association list in
  insertion order; the typeform slot holds \<open>None\<close> when the classifier returned
  Python's \<open>None\<close>.
\<close>

type_synonym entry = "typeform option \<times> pyobj"

record Parameters =
  storage :: "(string \<times> entry) list"

subsection \<open>Comparison of values\<close>

text \<open>
  \<open>==\<close> on two \<open>float\<close> objects: the fields of the bit pattern, NaN, the two
  zeros, and the IEEE comparison, under which a NaN equals nothing and the zeros
  equal each other. \<open>float_int_eq\<close> is the exact comparison of a \<open>float\<close> with an
  \<open>int\<close>.
\<close>

definition float_exponent :: "64 word \<Rightarrow> nat" where
  "float_exponent x = (unat x div 2 ^ 52) mod 2 ^ 11"

definition float_fraction :: "64 word \<Rightarrow> nat" where
  "float_fraction x = unat x mod 2 ^ 52"

definition float_negative :: "64 word \<Rightarrow> bool" where
  "float_negative x = (2 ^ 63 \<le> unat x)"

definition float_nan :: "64 word \<Rightarrow> bool" where
  "float_nan x = (float_exponent x = 2047 \<and> float_fraction x \<noteq> 0)"

definition float_zero :: "64 word \<Rightarrow> bool" where
  "float_zero x = (unat x mod 2 ^ 63 = 0)"

definition float_eq :: "64 word \<Rightarrow> 64 word \<Rightarrow> bool" where
  "float_eq x y = (\<not> float_nan x \<and> \<not> float_nan y \<and> (x = y \<or> float_zero x \<and> float_zero y))"

definition float_int_eq :: "64 word \<Rightarrow> int \<Rightarrow> bool" where
  "float_int_eq x i =
     (float_exponent x \<noteq> 2047 \<and>
      (let m = (if float_exponent x = 0 then int (float_fraction x)
                else 2 ^ 52 + int (float_fraction x));
           s = (if float_negative x then - m else m);
           e = (if float_exponent x = 0 then - 1074 else int (float_exponent x) - 1075)
       in if 0 \<le> e then i = s * 2 ^ nat e else s = i * 2 ^ nat (- e)))"

text \<open>
  \<open>bool\<close>, \<open>int\<close> and \<open>float\<close> compare by numeric value. Two floats that are the
  same object are taken as equal before their values are compared.
\<close>

datatype number = NInt int | NFloat nat "64 word"

fun number_eq :: "number \<Rightarrow> number \<Rightarrow> bool" where
  "number_eq (NInt i) (NInt j) = (i = j)"
| "number_eq (NInt i) (NFloat b y) = float_int_eq y i"
| "number_eq (NFloat a x) (NInt j) = float_int_eq x j"
| "number_eq (NFloat a x) (NFloat b y) = (a = b \<and> x = y \<or> float_eq x y)"

text \<open>
  What a value is compared as: an instance of a subclass compares as its base
  does, \<open>set\<close> and \<open>frozenset\<close> compare with each other, an instance of \<open>object\<close>
  or of a class that keeps \<open>object\<close>'s comparison is equal only to itself.
\<close>

datatype shape =
    SNum number
  | SStr string
  | SBytes "8 word list"
  | SNone
  | SDict "(pyobj \<times> pyobj) list"
  | SList "pyobj list"
  | STuple "pyobj list"
  | SSet "pyobj list"
  | SObject nat

fun shape_of :: "pyobj \<Rightarrow> shape" where
  "shape_of (PyBool b) = SNum (NInt (if b then 1 else 0))"
| "shape_of (PyInt i) = SNum (NInt i)"
| "shape_of (PyFloat a x) = SNum (NFloat a x)"
| "shape_of (PyStr s) = SStr s"
| "shape_of (PyBytes bs) = SBytes bs"
| "shape_of PyNone = SNone"
| "shape_of (PyDict kvs) = SDict kvs"
| "shape_of (PyList xs) = SList xs"
| "shape_of (PyTuple xs) = STuple xs"
| "shape_of (PySet xs) = SSet xs"
| "shape_of (PyFrozenset xs) = SSet xs"
| "shape_of (PyObject a) = SObject a"
| "shape_of (PyInstance n b) = shape_of b"
| "shape_of (PyIterable a n xs) = SObject a"

lemma shape_size:
  "shape_of a = SList xs \<Longrightarrow> x \<in> set xs \<Longrightarrow> size x < size a"
  "shape_of a = STuple xs \<Longrightarrow> x \<in> set xs \<Longrightarrow> size x < size a"
  "shape_of a = SSet xs \<Longrightarrow> x \<in> set xs \<Longrightarrow> size x < size a"
  "shape_of a = SDict kvs \<Longrightarrow> (k, v) \<in> set kvs \<Longrightarrow> size k < size a \<and> size v < size a"
proof (induction a)
  case (PyDict kvs')
  {
    case 4
    then have "(k, v) \<in> set kvs'" by simp
    then have "size_prod size size (k, v) \<le> size_list (size_prod size size) kvs'"
      by (intro size_list_estimation') auto
    then show ?case by simp
  }
qed (auto simp: less_Suc_eq_le intro: size_list_estimation')

text \<open>
  The comparison the containers apply to their items, \<open>a is b or a == b\<close>: lists
  and tuples item by item, sets and dictionaries by size and by looking every item
  of the left operand up in the right one.
\<close>

function py_eq :: "pyobj \<Rightarrow> pyobj \<Rightarrow> bool" where
  "py_eq a b =
     (case shape_of a of
        SNum x \<Rightarrow> (case shape_of b of SNum y \<Rightarrow> number_eq x y | _ \<Rightarrow> False)
      | SStr s \<Rightarrow> (case shape_of b of SStr t \<Rightarrow> s = t | _ \<Rightarrow> False)
      | SBytes s \<Rightarrow> (case shape_of b of SBytes t \<Rightarrow> s = t | _ \<Rightarrow> False)
      | SNone \<Rightarrow> (case shape_of b of SNone \<Rightarrow> True | _ \<Rightarrow> False)
      | SDict kvs \<Rightarrow>
          (case shape_of b of
             SDict kvs' \<Rightarrow>
               length kvs = length kvs' \<and>
               list_all (\<lambda>(k, v). list_ex (\<lambda>(k', v'). py_eq k k' \<and> py_eq v v') kvs') kvs
           | _ \<Rightarrow> False)
      | SList xs \<Rightarrow> (case shape_of b of SList ys \<Rightarrow> list_all2 py_eq xs ys | _ \<Rightarrow> False)
      | STuple xs \<Rightarrow> (case shape_of b of STuple ys \<Rightarrow> list_all2 py_eq xs ys | _ \<Rightarrow> False)
      | SSet xs \<Rightarrow>
          (case shape_of b of
             SSet ys \<Rightarrow> length xs = length ys \<and> list_all (\<lambda>x. list_ex (py_eq x) ys) xs
           | _ \<Rightarrow> False)
      | SObject i \<Rightarrow> (case shape_of b of SObject j \<Rightarrow> i = j | _ \<Rightarrow> False))"
  by pat_completeness auto
termination
  by (relation "measure (\<lambda>(a, b). size a)") (auto dest: shape_size)

declare py_eq.simps [simp del]


text \<open>
  The comparison of two stored pairs \<open>(typeform, value)\<close>: the typeforms are
  \<open>None\<close> or tuples of two strings, the values compare as above.
\<close>

definition tuple_eq :: "entry \<Rightarrow> entry \<Rightarrow> bool" where
  "tuple_eq x y = (fst x = fst y \<and> py_eq (snd x) (snd y))"

text \<open>
  The dictionary operations used by the class: \<open>d[k]\<close> is \<open>map_of d k\<close> with
  \<open>KeyError\<close> for \<open>None\<close>, \<open>d[k] = v\<close> is \<open>AList.update k v d\<close> (in place, or appended
  for a new key), \<open>d.pop(k, None)\<close> is \<open>map_of d k\<close> together with \<open>AList.delete k d\<close>.
  \<open>a == b\<close> on dictionaries compares the lengths, then looks every key of \<open>a\<close> up
  in \<open>b\<close> and compares the two stored pairs.
\<close>

definition dict_eq :: "(string \<times> entry) list \<Rightarrow> (string \<times> entry) list \<Rightarrow> bool" where
  "dict_eq a b =
     (length a = length b \<and>
      list_all (\<lambda>(k, av). case map_of b k of None \<Rightarrow> False | Some bv \<Rightarrow> tuple_eq av bv) a)"

text \<open>\<open>Parameters.__eq__\<close>.\<close>

definition Parameters_eq :: "Parameters \<Rightarrow> Parameters \<Rightarrow> bool" where
  "Parameters_eq self operand = dict_eq (storage operand) (storage self)"

text \<open>\<open>Parameters.get_parameter\<close>.\<close>

definition get_parameter :: "Parameters \<Rightarrow> string \<Rightarrow> exception + pyobj" where
  "get_parameter self key =
     (case map_of (storage self) key of
        None \<Rightarrow> Inl KeyError
      | Some (tf, v) \<Rightarrow> Inr v)"

text \<open>
  \<open>Parameters.__getitem__\<close>: the body is the expression statement
  \<open>self.get_parameter(key)\<close>, so the method returns \<open>None\<close> when the call returns.
\<close>

definition Parameters_getitem :: "Parameters \<Rightarrow> string \<Rightarrow> exception + pyobj" where
  "Parameters_getitem self key =
     (case get_parameter self key of
        Inl e \<Rightarrow> Inl e
      | Inr _ \<Rightarrow> Inr PyNone)"

text \<open>
  The mutating methods return what the call raised or returned, and the instance as
  the call left it.
\<close>

text \<open>\<open>Parameters.set_parameter\<close>.\<close>

definition set_parameter ::
  "Parameters \<Rightarrow> string \<Rightarrow> pyobj \<Rightarrow> (exception + entry option) \<times> Parameters" where
  "set_parameter self key val =
     (case identify_object_typeform val of
        Inl e \<Rightarrow> (Inl e, self)
      | Inr tf \<Rightarrow>
          (let last = map_of (storage self) key;
               popped = AList.delete key (storage self)
           in (Inr last, self\<lparr>storage := AList.update key (tf, val) popped\<rparr>)))"

text \<open>\<open>Parameters.update\<close>.\<close>

fun update :: "Parameters \<Rightarrow> (string \<times> pyobj) list \<Rightarrow> (exception + unit) \<times> Parameters" where
  "update self [] = (Inr (), self)"
| "update self ((k, v) # pairiter) =
     (case identify_object_typeform v of
        Inl e \<Rightarrow> (Inl e, self)
      | Inr tf \<Rightarrow> update (self\<lparr>storage := AList.update k (tf, v) (storage self)\<rparr>) pairiter)"

text \<open>
  \<open>Parameters.set_reference\<close>. \<open>self._storage[target][0][1]\<close> raises \<open>KeyError\<close> for
  an absent target and \<open>TypeError\<close> when the stored typeform is \<open>None\<close>.
\<close>

definition set_reference ::
  "Parameters \<Rightarrow> string \<Rightarrow> string \<Rightarrow> (exception + string) \<times> Parameters" where
  "set_reference self key target =
     (case map_of (storage self) target of
        None \<Rightarrow> (Inl KeyError, self)
      | Some (None, _) \<Rightarrow> (Inl TypeError, self)
      | Some (Some tf, _) \<Rightarrow>
          (let t = snd tf
           in (Inr t,
               self\<lparr>storage := AList.update key (Some (''reference'', t), PyStr target)
                                  (storage self)\<rparr>)))"

text \<open>
  \<open>Parameters.from_pairs_v1\<close>: the dictionary comprehension stores the pairs from
  left to right and the whole expression raises when a classification does.
\<close>

fun comprehension ::
  "(string \<times> entry) list \<Rightarrow> (string \<times> pyobj) list \<Rightarrow> exception + (string \<times> entry) list" where
  "comprehension d [] = Inr d"
| "comprehension d ((k, v) # iterpairs) =
     (case identify_object_typeform v of
        Inl e \<Rightarrow> Inl e
      | Inr tf \<Rightarrow> comprehension (AList.update k (tf, v) d) iterpairs)"

definition from_pairs_v1 :: "(string \<times> pyobj) list \<Rightarrow> exception + Parameters" where
  "from_pairs_v1 iterpairs =
     (case comprehension [] iterpairs of
        Inl e \<Rightarrow> Inl e
      | Inr d \<Rightarrow> Inr \<lparr>storage = d\<rparr>)"

text \<open>\<open>Parameters.from_nothing_v1\<close>.\<close>

definition from_nothing_v1 :: Parameters where
  "from_nothing_v1 = \<lparr>storage = []\<rparr>"

text \<open>
  The vocabulary of the claims. \<open>type_name v\<close> is the entry of
  \<open>_python_builtins\<close> for the exact type of \<open>v\<close>: a supported scalar has one. A
  homogeneous collection of scalars of type-name \<open>T\<close> is a value that is not itself
  such a scalar and whose iterator yields at least one element, all of them scalars
  of type-name \<open>T\<close>.
\<close>

definition type_name :: "pyobj \<Rightarrow> string option" where
  "type_name v = map_of python_builtins (type_py v)"

definition element_type :: "pyobj \<Rightarrow> string option" where
  "element_type S =
     (case iterate S of
        Some (x # xs) \<Rightarrow> if list_all (\<lambda>y. type_name y = type_name x) xs then type_name x else None
      | _ \<Rightarrow> None)"

definition homogeneous_collection :: "pyobj \<Rightarrow> string \<Rightarrow> bool" where
  "homogeneous_collection S T = (type_name S = None \<and> element_type S = Some T)"

definition supported :: "pyobj \<Rightarrow> bool" where
  "supported v = (type_name v \<noteq> None \<or> element_type v \<noteq> None)"

text \<open>
  A list of pairs is consistent when no key is paired with two different values.
\<close>

definition consistent :: "(string \<times> pyobj) list \<Rightarrow> bool" where
  "consistent ps = list_all (\<lambda>(k, v). list_all (\<lambda>(k', v'). k = k' \<longrightarrow> v = v') ps) ps"

text \<open>
  The typeform slot that \<open>from_pairs_v1\<close> stores beside a value whose classification
  returned.
\<close>

definition tag_of :: "pyobj \<Rightarrow> typeform option" where
  "tag_of v = (case identify_object_typeform v of Inl e \<Rightarrow> None | Inr tf \<Rightarrow> tf)"

section \<open>EStruct\<close>

text \<open>
  The five fields of the tuple, with the types of the accessors' annotations. A
  \<open>str\<close> is a list of code points below 256.
\<close>

record EStruct =
  protocol :: string
  "identifier" :: string
  code :: int
  symbol :: string
  abstract :: string

text \<open>An element of the tuple, as the \<open>%\<close> operator receives it.\<close>

datatype field = Str string | Integer int

text \<open>\<open>str(code)\<close>, also what \<open>%d\<close> and \<open>%s\<close> print for an \<open>int\<close>: the decimal digits, with a sign for a negative number.\<close>

fun digits :: "nat \<Rightarrow> string" where
  "digits n =
     (if n < 10 then [''0123456789'' ! n]
      else digits (n div 10) @ [''0123456789'' ! (n mod 10)])"

declare digits.simps [simp del]

definition str_int :: "int \<Rightarrow> string" where
  "str_int i = (if i < 0 then CHR ''-'' # digits (nat (- i)) else digits (nat i))"

text \<open>
  \<open>repr\<close> of a \<open>str\<close>, which \<open>%r\<close> prints: double quotes when the string has a
  single quote and no double quote, single quotes otherwise; the quote and the
  backslash escaped; tab, newline and carriage return as \<open>\t\<close>, \<open>\n\<close>, \<open>\r\<close>;
  every other code point that is not printable as \<open>\xNN\<close>.
\<close>

definition printable :: "char \<Rightarrow> bool" where
  "printable c =
     (let n = (of_char c :: nat)
      in (0x20 \<le> n \<and> n < 0x7F) \<or> (0xA1 \<le> n \<and> n \<noteq> 0xAD))"

definition quote_of :: "string \<Rightarrow> char" where
  "quote_of s = (if CHR 0x27 \<in> set s \<and> CHR 0x22 \<notin> set s then CHR 0x22 else CHR 0x27)"

definition escape :: "char \<Rightarrow> char \<Rightarrow> string" where
  "escape q c =
     (if c = q \<or> c = CHR 0x5C then [CHR 0x5C, c]
      else if c = CHR 0x09 then [CHR 0x5C, CHR ''t'']
      else if c = CHR 0x0A then [CHR 0x5C, CHR ''n'']
      else if c = CHR 0x0D then [CHR 0x5C, CHR ''r'']
      else if printable c then [c]
      else [CHR 0x5C, CHR ''x'',
            ''0123456789abcdef'' ! ((of_char c :: nat) div 16),
            ''0123456789abcdef'' ! ((of_char c :: nat) mod 16)])"

definition repr_str :: "string \<Rightarrow> string" where
  "repr_str s = (let q = quote_of s in q # concat (map (escape q) s) @ [q])"

text \<open>
  The \<open>%\<close> operator on a format string and a tuple, for the conversions this
  module uses (\<open>%s\<close>, \<open>%d\<close>, \<open>%r\<close> and \<open>%%\<close>): \<open>TypeError\<close> when the tuple
  is too short or too long or \<open>%d\<close> meets a \<open>str\<close>, \<open>ValueError\<close> for an
  incomplete or unknown conversion.
\<close>

fun conversion :: "char \<Rightarrow> field \<Rightarrow> exception + string" where
  "conversion c (Str s) =
     (if c = CHR ''s'' then Inr s
      else if c = CHR ''r'' then Inr (repr_str s)
      else if c = CHR ''d'' then Inl TypeError
      else Inl ValueError)"
| "conversion c (Integer i) =
     (if c = CHR ''s'' \<or> c = CHR ''r'' \<or> c = CHR ''d'' then Inr (str_int i)
      else Inl ValueError)"

fun format_py :: "string \<Rightarrow> field list \<Rightarrow> exception + string" where
  "format_py [] [] = Inr []"
| "format_py [] (a # args) = Inl TypeError"
| "format_py [c] args =
     (if c = CHR ''%'' then Inl ValueError
      else case format_py [] args of Inl e \<Rightarrow> Inl e | Inr out \<Rightarrow> Inr (c # out))"
| "format_py (c # d # fmt) args =
     (if c \<noteq> CHR ''%'' then
        (case format_py (d # fmt) args of Inl e \<Rightarrow> Inl e | Inr out \<Rightarrow> Inr (c # out))
      else if d = CHR ''%'' then
        (case format_py fmt args of Inl e \<Rightarrow> Inl e | Inr out \<Rightarrow> Inr (CHR ''%'' # out))
      else
        (case args of
           [] \<Rightarrow> Inl TypeError
         | a # rest \<Rightarrow>
             (case conversion d a of
                Inl e \<Rightarrow> Inl e
              | Inr s \<Rightarrow>
                  (case format_py fmt rest of Inl e \<Rightarrow> Inl e | Inr out \<Rightarrow> Inr (s @ out)))))"

text \<open>\<open>EStruct.__repr__\<close>.\<close>

definition EStruct_repr :: "EStruct \<Rightarrow> exception + string" where
  "EStruct_repr self =
     (if str_int (code self) \<noteq> identifier self
      then format_py ''<[%s#%s:%d] %s: %r>''
             [Str (protocol self), Str (identifier self), Integer (code self),
              Str (symbol self), Str (abstract self)]
      else format_py ''<[%s#%s] %s: %r>''
             [Str (protocol self), Str (identifier self), Str (symbol self),
              Str (abstract self)])"

section \<open>Properties of the classifier\<close>

lemma identify_builtin:
  "type_name obj = Some stype \<Longrightarrow> identify_object_typeform obj = Inr (Some (''value'', stype))"
  by (simp add: identify_object_typeform.simps type_name_def)

lemma identify_empty:
  "type_name obj = None \<Longrightarrow> iterate obj = Some [] \<Longrightarrow> identify_object_typeform obj = Inl ValueError"
  by (simp add: identify_object_typeform.simps [of obj] type_name_def iter_next_def)

lemma identify_first_scalar:
  "type_name obj = None \<Longrightarrow> iterate obj = Some (x # xs) \<Longrightarrow> type_name x = Some T \<Longrightarrow>
   identify_object_typeform obj =
     Inr (Some (if isinstance obj Cset then ''v-set'' else ''v-sequence'', T))"
  by (simp add: identify_object_typeform.simps [of obj] type_name_def iter_next_def identify_builtin)

lemma identify_not_iterable:
  "type_name obj = None \<Longrightarrow> iterate obj = None \<Longrightarrow>
   identify_object_typeform obj =
     (case find (\<lambda>(Type, stype). isinstance obj Type) python_builtins of
        Some (Type, stype) \<Rightarrow> Inr (Some (''value'', stype))
      | None \<Rightarrow> Inr None)"
  by (simp add: identify_object_typeform.simps [of obj] type_name_def iter_next_def)

text \<open>
  What the classifier returns for a homogeneous collection of scalars, and for a
  collection whose first element is such a collection.
\<close>

lemma identify_homogeneous_collection:
  "(homogeneous_collection S T \<longrightarrow>
      identify_object_typeform S =
        Inr (Some (if isinstance S Cset then ''v-set'' else ''v-sequence'', T)))
   \<and> (type_name S = None \<and> iter_next S = First x \<and> homogeneous_collection x T' \<longrightarrow>
      identify_object_typeform S = Inl AssertionError)"
proof (intro conjI impI)
  assume "homogeneous_collection S T"
  then show "identify_object_typeform S =
      Inr (Some (if isinstance S Cset then ''v-set'' else ''v-sequence'', T))"
    by (auto simp: homogeneous_collection_def element_type_def identify_first_scalar
        split: option.splits list.splits if_splits)
next
  assume a: "type_name S = None \<and> iter_next S = First x \<and> homogeneous_collection x T'"
  then have "identify_object_typeform x =
      Inr (Some (if isinstance x Cset then ''v-set'' else ''v-sequence'', T'))"
    by (auto simp: homogeneous_collection_def element_type_def identify_first_scalar
        split: option.splits list.splits if_splits)
  with a show "identify_object_typeform S = Inl AssertionError"
    by (simp add: identify_object_typeform.simps [of S] type_name_def)
qed

lemma update_raises:
  "(k, v) \<in> set pairiter \<Longrightarrow> identify_object_typeform v = Inl e \<Longrightarrow>
   \<exists>e'. fst (update self pairiter) = Inl e'"
proof (induction pairiter arbitrary: self)
  case Nil
  then show ?case by simp
next
  case (Cons p ps)
  obtain k' v' where p: "p = (k', v')" by (cases p)
  show ?case
  proof (cases "identify_object_typeform v'")
    case (Inl e0)
    with p show ?thesis by simp
  next
    case (Inr tf)
    with Cons.prems p have "(k, v) \<in> set ps" by auto
    from Cons.IH [OF this Cons.prems(2)] Inr p show ?thesis by simp
  qed
qed

section \<open>Properties of the dictionary operations\<close>

lemma filter_update_delete:
  "filter (\<lambda>e. fst e = k) (AList.update k v (AList.delete k al)) = [(k, v)]"
  by (induction al) (auto simp: AList.delete_eq)

lemma supported_classified:
  "supported v \<Longrightarrow> \<exists>tf. identify_object_typeform v = Inr (Some tf)"
  by (cases "type_name v")
     (auto simp: supported_def element_type_def identify_builtin identify_first_scalar
        split: option.splits list.splits if_splits)

lemma comprehension_lookup:
  "comprehension acc ps = Inr d \<Longrightarrow>
   map_of d k =
     (case map_of (rev ps) k of
        None \<Rightarrow> map_of acc k
      | Some v \<Rightarrow> Some (tag_of v, v))"
proof (induction ps arbitrary: acc)
  case Nil
  then show ?case by simp
next
  case (Cons p ps)
  obtain k' v' where p: "p = (k', v')" by (cases p)
  from Cons.prems p obtain tf where tf: "identify_object_typeform v' = Inr tf"
    and rest: "comprehension (AList.update k' (tf, v') acc) ps = Inr d"
    by (auto split: sum.splits)
  from Cons.IH [OF rest] p tf show ?case
    by (auto simp: update_conv' map_add_def tag_of_def split: option.splits)
qed

lemma comprehension_distinct:
  "comprehension acc ps = Inr d \<Longrightarrow> distinct (map fst acc) \<Longrightarrow> distinct (map fst d)"
proof (induction ps arbitrary: acc)
  case Nil
  then show ?case by simp
next
  case (Cons p ps)
  obtain k' v' where p: "p = (k', v')" by (cases p)
  from Cons.prems p obtain tf where
    rest: "comprehension (AList.update k' (tf, v') acc) ps = Inr d"
    by (auto split: sum.splits)
  from Cons.IH [OF rest] Cons.prems(2) show ?case
    by (simp add: distinct_update)
qed

lemma comprehension_succeeds_iff:
  "(\<exists>d. comprehension acc ps = Inr d) \<longleftrightarrow>
   (\<forall>(k, v) \<in> set ps. \<exists>tf. identify_object_typeform v = Inr tf)"
proof (induction ps arbitrary: acc)
  case Nil
  then show ?case by simp
next
  case (Cons p ps)
  obtain k' v' where p: "p = (k', v')" by (cases p)
  show ?case
  proof (cases "identify_object_typeform v'")
    case (Inl e)
    with p show ?thesis by auto
  next
    case (Inr tf)
    with p Cons.IH [of "AList.update k' (tf, v') acc"] show ?thesis by auto
  qed
qed

lemma py_eq_shape: "shape_of a = shape_of a' \<Longrightarrow> shape_of b = shape_of b' \<Longrightarrow> py_eq a b = py_eq a' b'"
  by (simp add: py_eq.simps [of a b] py_eq.simps [of a' b'] split: shape.splits)

lemma py_eq_refl: "py_eq v v"
proof (induction v)
  case (PyInstance n b)
  have "py_eq (PyInstance n b) (PyInstance n b) = py_eq b b"
    by (rule py_eq_shape) simp_all
  with PyInstance show ?case by simp
next
  case (PyDict kvs)
  then show ?case
    by (fastforce simp: py_eq.simps [of "PyDict kvs"] list_all_iff list_ex_iff)
qed (auto simp: py_eq.simps list_all_iff list_ex_iff list_all2_same)

lemma tuple_eq_refl: "tuple_eq x x"
  by (simp add: tuple_eq_def py_eq_refl)

lemma dict_eq_iff:
  assumes "distinct (map fst a)" and "distinct (map fst b)"
  shows "dict_eq a b \<longleftrightarrow> (\<forall>k. rel_option tuple_eq (map_of a k) (map_of b k))"
proof
  have ca: "card (dom (map_of a)) = length a" and cb: "card (dom (map_of b)) = length b"
    using assms by (simp_all add: dom_map_of_conv_image_fst distinct_card flip: set_map)
  {
    assume r: "\<forall>k. rel_option tuple_eq (map_of a k) (map_of b k)"
    have "dom (map_of a) = dom (map_of b)"
    proof (rule set_eqI)
      fix k
      from r have "rel_option tuple_eq (map_of a k) (map_of b k)" by blast
      then show "k \<in> dom (map_of a) \<longleftrightarrow> k \<in> dom (map_of b)"
        by (cases "map_of a k"; cases "map_of b k") auto
    qed
    with ca cb have len: "length a = length b" by simp
    have "\<exists>bv. map_of b k = Some bv \<and> tuple_eq av bv" if "(k, av) \<in> set a" for k av
    proof -
      from that assms(1) have "map_of a k = Some av" by (rule map_of_is_SomeI [rotated])
      moreover from r have "rel_option tuple_eq (map_of a k) (map_of b k)" by blast
      ultimately show ?thesis by (cases "map_of b k") auto
    qed
    with len show "dict_eq a b"
      by (fastforce simp: dict_eq_def list_all_iff)
  }
  {
    assume d: "dict_eq a b"
    then have len: "length a = length b"
      and sub: "\<And>k av. (k, av) \<in> set a \<Longrightarrow> \<exists>bv. map_of b k = Some bv \<and> tuple_eq av bv"
      by (auto simp: dict_eq_def list_all_iff split: option.splits)
    have "dom (map_of a) \<subseteq> dom (map_of b)"
    proof
      fix k assume "k \<in> dom (map_of a)"
      then obtain av where "map_of a k = Some av" by blast
      then have "(k, av) \<in> set a" by (rule map_of_SomeD)
      from sub [OF this] show "k \<in> dom (map_of b)" by blast
    qed
    moreover from ca cb len have "card (dom (map_of a)) = card (dom (map_of b))" by simp
    ultimately have dom: "dom (map_of a) = dom (map_of b)"
      by (simp add: card_subset_eq finite_dom_map_of)
    show "\<forall>k. rel_option tuple_eq (map_of a k) (map_of b k)"
    proof
      fix k
      show "rel_option tuple_eq (map_of a k) (map_of b k)"
      proof (cases "map_of a k")
        case None
        then have "k \<notin> dom (map_of a)" by blast
        with dom have "map_of b k = None" by blast
        with None show ?thesis by simp
      next
        case (Some av)
        then have "(k, av) \<in> set a" by (rule map_of_SomeD)
        from sub [OF this] Some show ?thesis by auto
      qed
    qed
  }
qed

lemma dict_eq_same_mapping:
  assumes "distinct (map fst a)" and "distinct (map fst b)" and "map_of a = map_of b"
  shows "dict_eq a b"
  using assms by (simp add: dict_eq_iff option.rel_refl tuple_eq_refl)

lemma consistent_map_of:
  assumes c: "\<And>k v v'. (k, v) \<in> set ps \<Longrightarrow> (k, v') \<in> set ps \<Longrightarrow> v = v'"
    and "set ps = set qs"
  shows "map_of ps = map_of qs"
proof
  fix k
  show "map_of ps k = map_of qs k"
  proof (cases "map_of ps k")
    case None
    then have "k \<notin> fst ` set ps" by (simp add: map_of_eq_None_iff)
    with assms(2) have "k \<notin> fst ` set qs" by simp
    then have "map_of qs k = None" by (simp add: map_of_eq_None_iff)
    with None show ?thesis by simp
  next
    case (Some v)
    then have "(k, v) \<in> set ps" by (rule map_of_SomeD)
    with assms(2) have "k \<in> fst ` set qs" by force
    then obtain v' where v': "map_of qs k = Some v'"
      by (metis map_of_eq_None_iff not_Some_eq)
    then have "(k, v') \<in> set qs" by (rule map_of_SomeD)
    with assms(2) have "(k, v') \<in> set ps" by simp
    with \<open>(k, v) \<in> set ps\<close> have "v = v'" by (rule c)
    with Some v' show ?thesis by simp
  qed
qed

section \<open>Claims\<close>

text \<open>
  C1. The claim: a value whose type is no fixed scalar kind, that is not iterable
  and is no instance of a subclass of a scalar kind makes \<open>set_parameter\<close> raise.
  The code does not: for \<open>object()\<close> the classifier runs off its end, and
  \<open>set_parameter\<close> on an empty store returns normally with the value stored under
  an absent typeform.
\<close>

theorem unclassifiable_stored_without_tag:
  "set_parameter from_nothing_v1 ''k'' (PyObject 0) =
     (Inr None, \<lparr>storage = [(''k'', (None, PyObject 0))]\<rparr>)"
  by (simp add: set_parameter_def from_nothing_v1_def identify_object_typeform.simps
      iter_next_def python_builtins_def isinstance_def)

text \<open>
  C2. A store built by \<open>from_pairs_v1\<close> from pairs with distinct keys, whose values
  are supported scalars or non-empty homogeneous collections of scalars, exists (the
  constructor does not raise) and \<open>get_parameter\<close> returns for every key the value it
  was paired with.
\<close>

theorem from_pairs_round_trip:
  assumes "distinct (map fst ps)" and "list_all (\<lambda>(k, v). supported v) ps"
  shows "\<exists>p. from_pairs_v1 ps = Inr p \<and> list_all (\<lambda>(k, v). get_parameter p k = Inr v) ps"
proof -
  have "\<forall>(k, v) \<in> set ps. \<exists>tf. identify_object_typeform v = Inr tf"
    using assms(2) supported_classified by (fastforce simp: list_all_iff)
  then obtain d where d: "comprehension [] ps = Inr d"
    using comprehension_succeeds_iff [of "[]" ps] by blast
  have "get_parameter \<lparr>storage = d\<rparr> k = Inr v" if "(k, v) \<in> set ps" for k v
  proof -
    from that assms(1) have "map_of (rev ps) k = Some v"
      by (simp add: distinct_rev rev_map [symmetric])
    with comprehension_lookup [OF d, of k] show ?thesis
      by (simp add: get_parameter_def)
  qed
  with d show ?thesis by (auto simp: from_pairs_v1_def list_all_iff)
qed

theorem from_pairs_round_trip_witness:
  "distinct (map fst [(''count'', PyInt 3), (''name'', PyStr ''widget''),
                      (''tags'', PySet [PyStr ''a'', PyStr ''b''])])
   \<and> list_all (\<lambda>(k, v). supported v)
        [(''count'', PyInt 3), (''name'', PyStr ''widget''),
         (''tags'', PySet [PyStr ''a'', PyStr ''b''])]
   \<and> (\<exists>p. from_pairs_v1 [(''count'', PyInt 3), (''name'', PyStr ''widget''),
                           (''tags'', PySet [PyStr ''a'', PyStr ''b''])] = Inr p
          \<and> get_parameter p ''count'' = Inr (PyInt 3)
          \<and> get_parameter p ''name'' = Inr (PyStr ''widget'')
          \<and> get_parameter p ''tags'' = Inr (PySet [PyStr ''a'', PyStr ''b'']))"
proof -
  have h1: "distinct (map fst [(''count'', PyInt 3), (''name'', PyStr ''widget''),
                      (''tags'', PySet [PyStr ''a'', PyStr ''b''])])"
    by simp
  have h2: "list_all (\<lambda>(k, v). supported v)
        [(''count'', PyInt 3), (''name'', PyStr ''widget''),
         (''tags'', PySet [PyStr ''a'', PyStr ''b''])]"
    by (simp add: supported_def type_name_def element_type_def python_builtins_def)
  show ?thesis
    using h1 h2 from_pairs_round_trip [OF h1 h2] by simp
qed

text \<open>
  C3. After \<open>set_parameter key v1\<close> and \<open>set_parameter key v2\<close>, with both
  classifications returning, the store has exactly one entry for the key, holding the
  classification of \<open>v2\<close> and \<open>v2\<close>; the second call returns the pair stored by the
  first, and the first returns \<open>None\<close> when the key was absent.
\<close>

theorem set_twice:
  assumes "identify_object_typeform v1 = Inr t1" and "identify_object_typeform v2 = Inr t2"
  shows "(let (r1, p1) = set_parameter p key v1;
              (r2, p2) = set_parameter p1 key v2
          in filter (\<lambda>e. fst e = key) (storage p2) = [(key, (t2, v2))]
             \<and> r2 = Inr (Some (t1, v1))
             \<and> (map_of (storage p) key = None \<longrightarrow> r1 = Inr None))"
  using assms
  by (simp add: set_parameter_def Let_def filter_update_delete update_conv')

theorem set_twice_witness:
  "identify_object_typeform (PyInt 3) = Inr (Some (''value'', ''integer''))
   \<and> identify_object_typeform (PyStr ''x'') = Inr (Some (''value'', ''string''))
   \<and> map_of (storage \<lparr>storage = [(''a'', (Some (''value'', ''void''), PyNone))]\<rparr>) ''k'' = None
   \<and> set_parameter \<lparr>storage = [(''a'', (Some (''value'', ''void''), PyNone))]\<rparr> ''k'' (PyInt 3)
       = (Inr None, \<lparr>storage = [(''a'', (Some (''value'', ''void''), PyNone)),
                                  (''k'', (Some (''value'', ''integer''), PyInt 3))]\<rparr>)
   \<and> set_parameter \<lparr>storage = [(''a'', (Some (''value'', ''void''), PyNone)),
                                (''k'', (Some (''value'', ''integer''), PyInt 3))]\<rparr> ''k'' (PyStr ''x'')
       = (Inr (Some (Some (''value'', ''integer''), PyInt 3)),
          \<lparr>storage = [(''a'', (Some (''value'', ''void''), PyNone)),
                      (''k'', (Some (''value'', ''string''), PyStr ''x''))]\<rparr>)"
proof -
  have h1: "identify_object_typeform (PyInt 3) = Inr (Some (''value'', ''integer''))"
    by (simp add: identify_builtin type_name_def python_builtins_def)
  have h2: "identify_object_typeform (PyStr ''x'') = Inr (Some (''value'', ''string''))"
    by (simp add: identify_builtin type_name_def python_builtins_def)
  show ?thesis
    using h1 h2
      set_twice [OF h1 h2, of "\<lparr>storage = [(''a'', (Some (''value'', ''void''), PyNone))]\<rparr>" "''k''"]
    by (simp add: set_parameter_def Let_def AList.delete_eq)
qed

text \<open>
  C4. The claim: a non-empty homogeneous collection of scalars is classified as
  \<open>('v-set', T)\<close> when it is a set. The code tests \<open>isinstance(obj, set)\<close>, which a
  \<open>frozenset\<close> does not pass: \<open>frozenset({1})\<close> is a homogeneous collection of
  integers and is classified as \<open>('v-sequence', 'integer')\<close>.
\<close>

theorem frozenset_classified_as_sequence:
  "homogeneous_collection (PyFrozenset [PyInt 1]) ''integer''
   \<and> identify_object_typeform (PyFrozenset [PyInt 1]) = Inr (Some (''v-sequence'', ''integer''))"
  by (simp add: homogeneous_collection_def element_type_def type_name_def python_builtins_def
      identify_first_scalar isinstance_def)

text \<open>
  C5. An empty iterable whose exact type is no fixed scalar kind makes the
  classifier raise \<open>ValueError\<close>; \<open>set_parameter\<close> raises it and leaves the store
  as it was, and \<open>update\<close> raises for every sequence of pairs that holds such a
  value.
\<close>

theorem empty_iterable_fails:
  assumes "type_name obj = None" and "iterate obj = Some []"
  shows "identify_object_typeform obj = Inl ValueError
       \<and> set_parameter self key obj = (Inl ValueError, self)
       \<and> ((k, obj) \<in> set pairiter \<longrightarrow> (\<exists>e. fst (update self pairiter) = Inl e))"
proof -
  have i: "identify_object_typeform obj = Inl ValueError"
    using assms by (rule identify_empty)
  then have "set_parameter self key obj = (Inl ValueError, self)"
    by (simp add: set_parameter_def)
  with i show ?thesis by (auto intro: update_raises)
qed

theorem empty_iterable_fails_witness:
  "type_name (PyList []) = None \<and> iterate (PyList []) = Some []
   \<and> identify_object_typeform (PyList []) = Inl ValueError
   \<and> set_parameter from_nothing_v1 ''k'' (PyList []) = (Inl ValueError, from_nothing_v1)
   \<and> (\<exists>e. fst (update from_nothing_v1 [(''a'', PyInt 1), (''k'', PyList [])]) = Inl e)"
proof -
  have h1: "type_name (PyList []) = None" by (simp add: type_name_def python_builtins_def)
  have h2: "iterate (PyList []) = Some []" by simp
  show ?thesis
    using h1 h2 empty_iterable_fails [OF h1 h2, of from_nothing_v1 "''k''" "''k''" "[(''a'', PyInt 1), (''k'', PyList [])]"]
    by simp
qed

text \<open>
  C6. \<open>set_reference\<close> raises \<open>KeyError\<close> for an absent target and leaves the
  store as it was. For a target stored under a typeform \<open>(form, t)\<close> it returns \<open>t\<close>
  and stores under the key the typeform \<open>('reference', t)\<close> with the target's key
  string as value; a later \<open>set_parameter\<close> on the target, a different key, leaves
  that entry as it is.
\<close>

theorem set_reference_tag:
  "(map_of (storage p) target = None \<longrightarrow> set_reference p key target = (Inl KeyError, p))
   \<and> (map_of (storage p) target = Some (Some (form, t), v) \<longrightarrow>
        set_reference p key target =
          (Inr t, p\<lparr>storage := AList.update key (Some (''reference'', t), PyStr target) (storage p)\<rparr>)
        \<and> map_of (storage (snd (set_reference p key target))) key
            = Some (Some (''reference'', t), PyStr target)
        \<and> (key \<noteq> target \<and> identify_object_typeform v' = Inr t' \<longrightarrow>
             map_of (storage (snd (set_parameter (snd (set_reference p key target)) target v'))) key
               = Some (Some (''reference'', t), PyStr target)))"
  by (simp add: set_reference_def set_parameter_def Let_def update_conv')

theorem set_reference_tag_witness:
  "map_of (storage \<lparr>storage = []\<rparr>) ''n'' = None
   \<and> set_reference \<lparr>storage = []\<rparr> ''r'' ''n'' = (Inl KeyError, \<lparr>storage = []\<rparr>)
   \<and> map_of (storage \<lparr>storage = [(''n'', (Some (''value'', ''integer''), PyInt 3))]\<rparr>) ''n''
       = Some (Some (''value'', ''integer''), PyInt 3)
   \<and> set_reference \<lparr>storage = [(''n'', (Some (''value'', ''integer''), PyInt 3))]\<rparr> ''r'' ''n''
       = (Inr ''integer'',
          \<lparr>storage = [(''n'', (Some (''value'', ''integer''), PyInt 3)),
                      (''r'', (Some (''reference'', ''integer''), PyStr ''n''))]\<rparr>)
   \<and> ''r'' \<noteq> ''n''
   \<and> identify_object_typeform (PyStr ''x'') = Inr (Some (''value'', ''string''))
   \<and> set_parameter \<lparr>storage = [(''n'', (Some (''value'', ''integer''), PyInt 3)),
                      (''r'', (Some (''reference'', ''integer''), PyStr ''n''))]\<rparr> ''n'' (PyStr ''x'')
       = (Inr (Some (Some (''value'', ''integer''), PyInt 3)),
          \<lparr>storage = [(''r'', (Some (''reference'', ''integer''), PyStr ''n'')),
                      (''n'', (Some (''value'', ''string''), PyStr ''x''))]\<rparr>)"
proof -
  have h: "identify_object_typeform (PyStr ''x'') = Inr (Some (''value'', ''string''))"
    by (simp add: identify_builtin type_name_def python_builtins_def)
  show ?thesis
    using h
      set_reference_tag [of "\<lparr>storage = []\<rparr>" "''n''" "''r''"]
      set_reference_tag [of "\<lparr>storage = [(''n'', (Some (''value'', ''integer''), PyInt 3))]\<rparr>"
        "''n''" "''r''" "''value''" "''integer''" "PyInt 3" "PyStr ''x''" "Some (''value'', ''string'')"]
    by (simp add: set_parameter_def Let_def AList.delete_eq)
qed

text \<open>
  C7, as stated: two lists holding the same pairs in different orders give equal
  stores. It fails when a key is paired with two values, since the later pair wins.
\<close>

theorem from_pairs_duplicate_keys_counterexample:
  "set [(''a'', PyInt 1), (''a'', PyInt 2)] = set [(''a'', PyInt 2), (''a'', PyInt 1)]
   \<and> from_pairs_v1 [(''a'', PyInt 1), (''a'', PyInt 2)]
       = Inr \<lparr>storage = [(''a'', (Some (''value'', ''integer''), PyInt 2))]\<rparr>
   \<and> from_pairs_v1 [(''a'', PyInt 2), (''a'', PyInt 1)]
       = Inr \<lparr>storage = [(''a'', (Some (''value'', ''integer''), PyInt 1))]\<rparr>
   \<and> \<not> Parameters_eq \<lparr>storage = [(''a'', (Some (''value'', ''integer''), PyInt 2))]\<rparr>
                        \<lparr>storage = [(''a'', (Some (''value'', ''integer''), PyInt 1))]\<rparr>"
  by (auto simp: from_pairs_v1_def identify_builtin type_name_def python_builtins_def
      Parameters_eq_def dict_eq_def tuple_eq_def py_eq.simps)

text \<open>
  C7, amended: two lists holding the same pairs, in which every key is paired with
  one value only (the same object wherever the key recurs), give stores that compare
  equal, whatever the order (and the second construction returns when the first
  does); two stores with well-formed dictionaries compare equal exactly when they
  have the same keys and hold under each key equal typeforms and values that
  compare equal.
\<close>

theorem from_pairs_order_independent:
  "(set ps = set qs \<and> consistent ps \<and> from_pairs_v1 ps = Inr p \<longrightarrow>
      (\<exists>q. from_pairs_v1 qs = Inr q \<and> Parameters_eq p q \<and> Parameters_eq q p))
   \<and> (distinct (map fst (storage a)) \<and> distinct (map fst (storage b)) \<longrightarrow>
        (Parameters_eq a b \<longleftrightarrow>
           (\<forall>k. rel_option tuple_eq (map_of (storage b) k) (map_of (storage a) k))))"
proof (intro conjI impI)
  assume "distinct (map fst (storage a)) \<and> distinct (map fst (storage b))"
  then show "Parameters_eq a b \<longleftrightarrow>
      (\<forall>k. rel_option tuple_eq (map_of (storage b) k) (map_of (storage a) k))"
    unfolding Parameters_eq_def by (intro dict_eq_iff) simp_all
next
  assume a: "set ps = set qs \<and> consistent ps \<and> from_pairs_v1 ps = Inr p"
  then obtain dp where dp: "comprehension [] ps = Inr dp" and p: "p = \<lparr>storage = dp\<rparr>"
    by (auto simp: from_pairs_v1_def split: sum.splits)
  from dp a obtain dq where dq: "comprehension [] qs = Inr dq"
    using comprehension_succeeds_iff [of "[]" ps] comprehension_succeeds_iff [of "[]" qs]
    by auto
  have c: "(k, v) \<in> set (rev ps) \<Longrightarrow> (k, v') \<in> set (rev ps) \<Longrightarrow> v = v'" for k v v'
    using a by (fastforce simp: consistent_def list_all_iff)
  have "map_of (rev ps) = map_of (rev qs)"
    using c a by (intro consistent_map_of) auto
  then have m: "map_of dp = map_of dq"
    using comprehension_lookup [OF dp] comprehension_lookup [OF dq] by (intro ext) simp
  have "distinct (map fst dp)" "distinct (map fst dq)"
    using comprehension_distinct [OF dp] comprehension_distinct [OF dq] by simp_all
  with m have "dict_eq dp dq" "dict_eq dq dp"
    by (simp_all add: dict_eq_same_mapping)
  with dq p show "\<exists>q. from_pairs_v1 qs = Inr q \<and> Parameters_eq p q \<and> Parameters_eq q p"
    by (simp add: from_pairs_v1_def Parameters_eq_def)
qed

theorem from_pairs_order_independent_witness:
  "set [(''x'', PyFloat 1 0x7FF8000000000000), (''tags'', PySet [PyInt 0, PyInt 8])]
     = set [(''tags'', PySet [PyInt 0, PyInt 8]), (''x'', PyFloat 1 0x7FF8000000000000)]
   \<and> consistent [(''x'', PyFloat 1 0x7FF8000000000000), (''tags'', PySet [PyInt 0, PyInt 8])]
   \<and> from_pairs_v1 [(''x'', PyFloat 1 0x7FF8000000000000), (''tags'', PySet [PyInt 0, PyInt 8])]
       = Inr \<lparr>storage = [(''x'', (Some (''value'', ''rational''), PyFloat 1 0x7FF8000000000000)),
                           (''tags'', (Some (''v-set'', ''integer''), PySet [PyInt 0, PyInt 8]))]\<rparr>
   \<and> from_pairs_v1 [(''tags'', PySet [PyInt 0, PyInt 8]), (''x'', PyFloat 1 0x7FF8000000000000)]
       = Inr \<lparr>storage = [(''tags'', (Some (''v-set'', ''integer''), PySet [PyInt 0, PyInt 8])),
                           (''x'', (Some (''value'', ''rational''), PyFloat 1 0x7FF8000000000000))]\<rparr>
   \<and> Parameters_eq
        \<lparr>storage = [(''x'', (Some (''value'', ''rational''), PyFloat 1 0x7FF8000000000000)),
                     (''tags'', (Some (''v-set'', ''integer''), PySet [PyInt 0, PyInt 8]))]\<rparr>
        \<lparr>storage = [(''tags'', (Some (''v-set'', ''integer''), PySet [PyInt 0, PyInt 8])),
                     (''x'', (Some (''value'', ''rational''), PyFloat 1 0x7FF8000000000000))]\<rparr>
   \<and> distinct (map fst (storage \<lparr>storage = [(''z'', (Some (''value'', ''rational''), PyFloat 1 0))]\<rparr>))
   \<and> distinct (map fst (storage \<lparr>storage =
          [(''z'', (Some (''value'', ''rational''), PyFloat 2 0x8000000000000000))]\<rparr>))
   \<and> Parameters_eq
        \<lparr>storage = [(''z'', (Some (''value'', ''rational''), PyFloat 1 0))]\<rparr>
        \<lparr>storage = [(''z'', (Some (''value'', ''rational''), PyFloat 2 0x8000000000000000))]\<rparr>"
proof -
  have h1: "set [(''x'', PyFloat 1 0x7FF8000000000000), (''tags'', PySet [PyInt 0, PyInt 8])]
     = set [(''tags'', PySet [PyInt 0, PyInt 8]), (''x'', PyFloat 1 0x7FF8000000000000)]"
    by auto
  have h2: "consistent [(''x'', PyFloat 1 0x7FF8000000000000), (''tags'', PySet [PyInt 0, PyInt 8])]"
    by (simp add: consistent_def)
  have h3: "from_pairs_v1 [(''x'', PyFloat 1 0x7FF8000000000000), (''tags'', PySet [PyInt 0, PyInt 8])]
       = Inr \<lparr>storage = [(''x'', (Some (''value'', ''rational''), PyFloat 1 0x7FF8000000000000)),
                           (''tags'', (Some (''v-set'', ''integer''), PySet [PyInt 0, PyInt 8]))]\<rparr>"
    by (simp add: from_pairs_v1_def identify_builtin identify_first_scalar type_name_def
        python_builtins_def isinstance_def)
  have h4: "from_pairs_v1 [(''tags'', PySet [PyInt 0, PyInt 8]), (''x'', PyFloat 1 0x7FF8000000000000)]
       = Inr \<lparr>storage = [(''tags'', (Some (''v-set'', ''integer''), PySet [PyInt 0, PyInt 8])),
                           (''x'', (Some (''value'', ''rational''), PyFloat 1 0x7FF8000000000000))]\<rparr>"
    by (simp add: from_pairs_v1_def identify_builtin identify_first_scalar type_name_def
        python_builtins_def isinstance_def)
  have h5: "rel_option tuple_eq
        (map_of (storage \<lparr>storage =
           [(''z'', (Some (''value'', ''rational''), PyFloat 2 0x8000000000000000))]\<rparr>) k)
        (map_of (storage \<lparr>storage = [(''z'', (Some (''value'', ''rational''), PyFloat 1 0))]\<rparr>) k)"
    for k
    by (simp add: tuple_eq_def py_eq.simps float_eq_def float_nan_def float_zero_def
        float_exponent_def float_fraction_def)
  from from_pairs_order_independent
    [of "[(''x'', PyFloat 1 0x7FF8000000000000), (''tags'', PySet [PyInt 0, PyInt 8])]"
        "[(''tags'', PySet [PyInt 0, PyInt 8]), (''x'', PyFloat 1 0x7FF8000000000000)]"
        "\<lparr>storage = [(''x'', (Some (''value'', ''rational''), PyFloat 1 0x7FF8000000000000)),
                      (''tags'', (Some (''v-set'', ''integer''), PySet [PyInt 0, PyInt 8]))]\<rparr>"
        "\<lparr>storage = [(''z'', (Some (''value'', ''rational''), PyFloat 1 0))]\<rparr>"
        "\<lparr>storage = [(''z'', (Some (''value'', ''rational''), PyFloat 2 0x8000000000000000))]\<rparr>"]
    h1 h2 h3 h4 h5
  show ?thesis by simp
qed

text \<open>
  C8. The rendering of an \<open>EStruct\<close> has the segment \<open>:code\<close> exactly when the
  decimal form of \<open>code\<close> differs from \<open>identifier\<close>, and the \<open>posix.errno\<close>
  example renders as the specification says.
\<close>

theorem repr_code_segment:
  "(str_int (code e) \<noteq> identifier e \<longrightarrow>
      EStruct_repr e = Inr (''<['' @ protocol e @ ''#'' @ identifier e @ '':'' @ str_int (code e)
                             @ ''] '' @ symbol e @ '': '' @ repr_str (abstract e) @ ''>''))
   \<and> (str_int (code e) = identifier e \<longrightarrow>
      EStruct_repr e = Inr (''<['' @ protocol e @ ''#'' @ identifier e
                             @ ''] '' @ symbol e @ '': '' @ repr_str (abstract e) @ ''>''))
   \<and> EStruct_repr \<lparr>protocol = ''posix.errno'', identifier = ''4'', code = 4,
                   symbol = ''EINTR'', abstract = ''Interrupted system call''\<rparr>
       = Inr ''<[posix.errno#4] EINTR: 'Interrupted system call'>''"
proof (intro conjI impI)
  show "EStruct_repr \<lparr>protocol = ''posix.errno'', identifier = ''4'', code = 4,
                   symbol = ''EINTR'', abstract = ''Interrupted system call''\<rparr>
       = Inr ''<[posix.errno#4] EINTR: 'Interrupted system call'>''"
    by (simp add: EStruct_repr_def str_int_def digits.simps repr_str_def quote_of_def
        escape_def printable_def Let_def)
qed (simp_all add: EStruct_repr_def)

theorem repr_code_segment_witness:
  "str_int (code \<lparr>protocol = ''sql'', identifier = ''42P01'', code = 42,
                  symbol = ''undefined_table'', abstract = ''no table''\<rparr>) \<noteq> ''42P01''
   \<and> EStruct_repr \<lparr>protocol = ''sql'', identifier = ''42P01'', code = 42,
                   symbol = ''undefined_table'', abstract = ''no table''\<rparr>
       = Inr ''<[sql#42P01:42] undefined_table: 'no table'>''
   \<and> str_int (code \<lparr>protocol = ''posix.errno'', identifier = ''4'', code = 4,
                  symbol = ''EINTR'', abstract = ''Interrupted system call''\<rparr>) = ''4''
   \<and> EStruct_repr \<lparr>protocol = ''posix.errno'', identifier = ''4'', code = 4,
                   symbol = ''EINTR'', abstract = ''Interrupted system call''\<rparr>
       = Inr ''<[posix.errno#4] EINTR: 'Interrupted system call'>''"
proof -
  have h1: "str_int 42 = ''42''" by (simp add: str_int_def digits.simps)
  have h2: "str_int 4 = ''4''" by (simp add: str_int_def digits.simps)
  show ?thesis
    using h1 h2
      repr_code_segment [of "\<lparr>protocol = ''sql'', identifier = ''42P01'', code = 42,
                  symbol = ''undefined_table'', abstract = ''no table''\<rparr>"]
    by (simp add: repr_str_def quote_of_def escape_def printable_def Let_def)
qed

text \<open>
  C9. For a key that is present, \<open>__getitem__\<close> returns \<open>None\<close> while
  \<open>get_parameter\<close> returns the stored value.
\<close>

theorem getitem_returns_none:
  assumes "map_of (storage p) k = Some (tf, v)"
  shows "Parameters_getitem p k = Inr PyNone \<and> get_parameter p k = Inr v"
  using assms by (simp add: Parameters_getitem_def get_parameter_def)

theorem getitem_returns_none_witness:
  "map_of (storage \<lparr>storage = [(''count'', (Some (''value'', ''integer''), PyInt 3))]\<rparr>) ''count''
     = Some (Some (''value'', ''integer''), PyInt 3)
   \<and> Parameters_getitem \<lparr>storage = [(''count'', (Some (''value'', ''integer''), PyInt 3))]\<rparr> ''count'' = Inr PyNone
   \<and> get_parameter \<lparr>storage = [(''count'', (Some (''value'', ''integer''), PyInt 3))]\<rparr> ''count'' = Inr (PyInt 3)"
  using getitem_returns_none [of "\<lparr>storage = [(''count'', (Some (''value'', ''integer''), PyInt 3))]\<rparr>" "''count''" "Some (''value'', ''integer'')" "PyInt 3"]
  by simp

text \<open>
  C10. When the classification of the value raises, \<open>set_parameter\<close> raises that
  exception and the instance is the one it was called on.
\<close>

theorem set_parameter_atomic:
  assumes "identify_object_typeform val = Inl e"
  shows "set_parameter self key val = (Inl e, self)"
  using assms by (simp add: set_parameter_def)

theorem set_parameter_atomic_witness:
  "identify_object_typeform (PyTuple []) = Inl ValueError
   \<and> set_parameter \<lparr>storage = [(''k'', (Some (''value'', ''integer''), PyInt 3))]\<rparr> ''k'' (PyTuple [])
       = (Inl ValueError, \<lparr>storage = [(''k'', (Some (''value'', ''integer''), PyInt 3))]\<rparr>)"
proof -
  have h: "identify_object_typeform (PyTuple []) = Inl ValueError"
    by (simp add: identify_empty type_name_def python_builtins_def)
  show ?thesis
    using h set_parameter_atomic [OF h, of "\<lparr>storage = [(''k'', (Some (''value'', ''integer''), PyInt 3))]\<rparr>" "''k''"]
    by simp
qed

end
